theory Spec2Isabelle
  imports Main "HOL-Library.Sublist" "HOL-Library.Word"
begin

section \<open>Strings as the components use them\<close>

text \<open>
  A JavaScript string is a sequence of 16-bit code units. The texts of a
  symptom, the query and a risk label are of this type: the components trim
  them, lower-case them and search them. \<open>js\<close> writes an ASCII literal as
  such a string. Identifiers in the selection, the animal and the messages are
  only compared and passed on; they stay of type \<^typ>\<open>string\<close>.
\<close>

type_synonym js_string = "16 word list"

definition js :: "string \<Rightarrow> js_string" where
  "js s = map of_char s"

text \<open>
  \<^verbatim>\<open>String.prototype.trim\<close> removes from both ends the code units that
  ECMAScript calls WhiteSpace or LineTerminator: TAB, LF, VT, FF, CR, SPACE,
  NO-BREAK SPACE, the other space separators of Unicode (U+1680,
  U+2000..U+200A, U+202F, U+205F, U+3000), LINE SEPARATOR, PARAGRAPH SEPARATOR
  and U+FEFF.
\<close>

definition is_space :: "16 word \<Rightarrow> bool" where
  "is_space u =
     (u \<in> set [0x0009, 0x000A, 0x000B, 0x000C, 0x000D, 0x0020, 0x00A0, 0x1680,
                0x2000, 0x2001, 0x2002, 0x2003, 0x2004, 0x2005, 0x2006, 0x2007,
                0x2008, 0x2009, 0x200A, 0x2028, 0x2029, 0x202F, 0x205F, 0x3000,
                0xFEFF])"

definition trim :: "js_string \<Rightarrow> js_string" where
  "trim s = rev (dropWhile is_space (rev (dropWhile is_space s)))"

text \<open>\<^verbatim>\<open>s.includes(q)\<close>: \<open>q\<close> occurs in \<open>s\<close> as a contiguous run of code units.\<close>

fun includes_str :: "'a list \<Rightarrow> 'a list \<Rightarrow> bool" where
  "includes_str [] q = (q = [])"
| "includes_str (c # cs) q = (prefix q (c # cs) \<or> includes_str cs q)"

text \<open>
  \<^verbatim>\<open>String.prototype.toLowerCase\<close> is the lower-case mapping of Unicode, whose
  tables are no part of the repository. Every function below that calls it
  takes it as its first argument, under the name \<open>toLowerCase\<close>, and the
  theorems about these functions hold for every such argument, so for the
  mapping of the language too; where a theorem needs a property of the mapping
  (it maps the empty string, and no other, to the empty string), the property
  is a premise.

  On a string whose code units are ASCII or of the Telugu block
  (U+0C00..U+0C7F, a script without case) the mapping turns A..Z into a..z and
  changes nothing else. \<open>toLowerCase_ascii\<close> is the mapping on such strings;
  the closed examples are evaluated with it, and lower-case only such strings.
\<close>

definition toLowerCase_ascii :: "js_string \<Rightarrow> js_string" where
  "toLowerCase_ascii s = map (\<lambda>u. if 0x41 \<le> u \<and> u \<le> 0x5A then u + 0x20 else u) s"

text \<open>
  The words of the specification: \<open>s\<close> contains \<open>q\<close> as a case-insensitive
  substring.
\<close>

definition contains_ci :: "(js_string \<Rightarrow> js_string) \<Rightarrow> js_string \<Rightarrow> js_string \<Rightarrow> bool" where
  "contains_ci toLowerCase s q = sublist (toLowerCase q) (toLowerCase s)"

section \<open>Risk badges\<close>

text \<open>
  \<^verbatim>\<open>RiskBadge\<close> of App.jsx: the CSS class of the badge.
  \<^verbatim>\<open>
  const isHigh = label.toLowerCase().includes("high risk");
  const isMed = label.toLowerCase().includes("medium risk");
  const cls = isHigh ? "badge badge-high" : isMed ? "badge badge-med" : "badge badge-low";
  \<close>
\<close>

definition RiskBadge :: "(js_string \<Rightarrow> js_string) \<Rightarrow> js_string \<Rightarrow> string" where
  "RiskBadge toLowerCase label =
     (let isHigh = includes_str (toLowerCase label) (js ''high risk'');
          isMed = includes_str (toLowerCase label) (js ''medium risk'')
      in if isHigh then ''badge badge-high''
         else if isMed then ''badge badge-med''
         else ''badge badge-low'')"

text \<open>
  \<^verbatim>\<open>riskColor\<close> of PredictionResult.jsx. The argument is \<open>None\<close> for
  \<^verbatim>\<open>undefined\<close> or \<^verbatim>\<open>null\<close>, which \<^verbatim>\<open>(text||"")\<close> turns into the empty string.
\<close>

definition riskColor :: "(js_string \<Rightarrow> js_string) \<Rightarrow> js_string option \<Rightarrow> string" where
  "riskColor toLowerCase text =
     (let t = toLowerCase (case text of None \<Rightarrow> [] | Some x \<Rightarrow> x)
      in if includes_str t (js ''high'') then ''error''
         else if includes_str t (js ''medium'') then ''warning''
         else if includes_str t (js ''low'') then ''success''
         else ''default'')"

section \<open>The symptom catalog and its search\<close>

text \<open>
  A symptom as the service sends it: \<^verbatim>\<open>{en, te, display}\<close>, three strings;
  \<open>en\<close> is also the identifier the selection stores. On a string,
  \<^verbatim>\<open>(s.display||"")\<close> is the string itself.
\<close>

record symptom =
  en :: js_string
  te :: js_string
  display :: js_string

text \<open>
  \<^verbatim>\<open>filteredSymptoms\<close> of App.jsx:
  \<^verbatim>\<open>
  const q = query.trim().toLowerCase();
  if (!q) return allSymptoms;
  return allSymptoms.filter((s) => s.display.toLowerCase().includes(q));
  \<close>
\<close>

definition filteredSymptoms ::
  "(js_string \<Rightarrow> js_string) \<Rightarrow> symptom list \<Rightarrow> js_string \<Rightarrow> symptom list" where
  "filteredSymptoms toLowerCase allSymptoms query =
     (let q = toLowerCase (trim query)
      in if q = [] then allSymptoms
         else filter (\<lambda>s. includes_str (toLowerCase (display s)) q) allSymptoms)"

text \<open>
  \<^verbatim>\<open>filtered\<close> of SymptomSelector.jsx: the same, over \<open>display\<close>, \<open>en\<close> and
  \<open>te\<close>.
\<close>

definition filtered ::
  "(js_string \<Rightarrow> js_string) \<Rightarrow> symptom list \<Rightarrow> js_string \<Rightarrow> symptom list" where
  "filtered toLowerCase allSymptoms query =
     (let q = toLowerCase (trim query)
      in if q = [] then allSymptoms
         else filter (\<lambda>s. includes_str (toLowerCase (display s)) q
                          \<or> includes_str (toLowerCase (en s)) q
                          \<or> includes_str (toLowerCase (te s)) q) allSymptoms)"

text \<open>
  The filter as the specification words it, to compare the two with: the
  symptoms whose identifier or a label contains the query itself, or the whole
  list for an empty or white-space query.
\<close>

definition spec_filter ::
  "(js_string \<Rightarrow> js_string) \<Rightarrow> symptom list \<Rightarrow> js_string \<Rightarrow> symptom list" where
  "spec_filter toLowerCase L q =
     (if list_all is_space q then L
      else filter (\<lambda>s. contains_ci toLowerCase (en s) q
                       \<or> contains_ci toLowerCase (te s) q
                       \<or> contains_ci toLowerCase (display s) q) L)"

section \<open>Values exchanged with the service\<close>

text \<open>
  JSON values: the request body of \<^verbatim>\<open>/predict\<close> and the prediction the
  application stores without looking into it. \<open>JNull\<close> also stands for
  \<^verbatim>\<open>undefined\<close>.
\<close>

datatype json =
    JNull
  | JBool bool
  | JNum int
  | JStr string
  | JArr "json list"
  | JObj "(string \<times> json) list"

text \<open>Property access \<^verbatim>\<open>v.k\<close> on a value that is not null.\<close>

fun field :: "string \<Rightarrow> json \<Rightarrow> json option" where
  "field k (JObj kvs) = map_of kvs k"
| "field k v = None"

text \<open>
  A call of the axios instance \<^verbatim>\<open>api\<close>, and how its promise settles: fulfilled
  with a response, or rejected; axios rejects when there is no response, when
  the 20000 ms timeout passes, and on a status outside 200..299.
\<close>

datatype http_call = GET string | POST string json

datatype failure = NetworkError | Timeout | BadStatus nat

datatype 'a settled = Fulfilled 'a | Rejected failure

record 'd response =
  status :: nat
  data :: 'd

text \<open>
  The body of a \<^verbatim>\<open>/symptoms\<close> response: \<open>data\<close> is \<open>None\<close> when the body is
  null or absent, and \<open>symptoms\<close> is \<open>None\<close> when the key is absent or null.
\<close>

record symptoms_body =
  symptoms :: "symptom list option"

text \<open>
  The two functions of the API module. An \<^verbatim>\<open>async\<close> function is the call it
  issues and a function from the settlement of the awaited call to the
  settlement of its own promise (a rejection passes through).
  \<^verbatim>\<open>
  export async function getSymptoms(){ const r=await api.get("/symptoms"); return r.data?.symptoms ?? []; }
  export async function predict(payload){ const r=await api.post("/predict", payload); return r.data; }
  \<close>
\<close>

definition getSymptoms_call :: http_call where
  "getSymptoms_call = GET ''/symptoms''"

definition getSymptoms :: "symptoms_body option response settled \<Rightarrow> symptom list settled" where
  "getSymptoms awaited =
     (case awaited of
        Rejected f \<Rightarrow> Rejected f
      | Fulfilled r \<Rightarrow>
          Fulfilled (case data r of
                       None \<Rightarrow> []
                     | Some d \<Rightarrow> (case symptoms d of None \<Rightarrow> [] | Some l \<Rightarrow> l)))"

definition predict_call :: "json \<Rightarrow> http_call" where
  "predict_call payload = POST ''/predict'' payload"

definition predict :: "json response settled \<Rightarrow> json settled" where
  "predict awaited =
     (case awaited of
        Rejected f \<Rightarrow> Rejected f
      | Fulfilled r \<Rightarrow> Fulfilled (data r))"

section \<open>The application state and its handlers\<close>

text \<open>The seven \<^verbatim>\<open>useState\<close> variables of \<^verbatim>\<open>App\<close>; \<open>result\<close> is \<open>JNull\<close> for null.\<close>

record app_state =
  animal :: string
  allSymptoms :: "symptom list"
  selected :: "string list"
  query :: js_string
  result :: json
  error :: string
  loading :: bool

definition init_state :: app_state where
  "init_state =
     \<lparr>animal = ''Cow'', allSymptoms = [], selected = [], query = [],
      result = JNull, error = '''', loading = False\<rparr>"

text \<open>
  The effect run once on mount calls \<^verbatim>\<open>getSymptoms()\<close>;
  \<^verbatim>\<open>.then(setAllSymptoms).catch(() => setError(...))\<close> is applied when it settles.
\<close>

definition load_failed_msg :: string where
  "load_failed_msg = ''Failed to load symptoms. Please start backend (FastAPI).''"

definition load_settle :: "symptom list settled \<Rightarrow> app_state \<Rightarrow> app_state" where
  "load_settle r s =
     (case r of
        Fulfilled l \<Rightarrow> s\<lparr>allSymptoms := l\<rparr>
      | Rejected f \<Rightarrow> s\<lparr>error := load_failed_msg\<rparr>)"

text \<open>
  \<^verbatim>\<open>toggle\<close> of App.jsx:
  \<^verbatim>\<open>
  setSelected((prev) => {
    if (prev.includes(en)) return prev.filter((x) => x !== en);
    if (prev.length >= 8) { setError("You can select maximum 8 symptoms."); return prev; }
    return [...prev, en];
  });
  \<close>
\<close>

definition max_msg :: string where
  "max_msg = ''You can select maximum 8 symptoms.''"

definition toggle :: "string \<Rightarrow> app_state \<Rightarrow> app_state" where
  "toggle e s =
     (let prev = selected s
      in if e \<in> set prev then s\<lparr>selected := filter (\<lambda>x. x \<noteq> e) prev\<rparr>
         else if length prev \<ge> 8 then s\<lparr>error := max_msg\<rparr>
         else s\<lparr>selected := prev @ [e]\<rparr>)"

text \<open>The \<^verbatim>\<open>onRemove\<close> of a pill: \<^verbatim>\<open>setSelected((prev) => prev.filter((x) => x !== en))\<close>.\<close>

definition onRemove :: "string \<Rightarrow> app_state \<Rightarrow> app_state" where
  "onRemove e s = s\<lparr>selected := filter (\<lambda>x. x \<noteq> e) (selected s)\<rparr>"

definition clearAll :: "app_state \<Rightarrow> app_state" where
  "clearAll s = s\<lparr>selected := [], query := [], result := JNull, error := ''''\<rparr>"

text \<open>
  \<^verbatim>\<open>toggle\<close> of SymptomSelector.jsx, as the \<open>selected\<close> of the parent after the
  call (the list itself where \<^verbatim>\<open>setSelected\<close> is not called), and the \<open>blocked\<close>
  flag under which an item is drawn disabled with the caption \<^verbatim>\<open>(max N)\<close>.
  \<^verbatim>\<open>
  if(disabled) return;
  const exists = selected.includes(en);
  if(exists) return setSelected(selected.filter(x=>x!==en));
  if(selected.length >= max) return;
  setSelected([...selected, en]);
  \<close>
\<close>

definition SymptomSelector_toggle :: "bool \<Rightarrow> nat \<Rightarrow> string list \<Rightarrow> string \<Rightarrow> string list" where
  "SymptomSelector_toggle disabled max_n sel e =
     (if disabled then sel
      else if e \<in> set sel then filter (\<lambda>x. x \<noteq> e) sel
      else if length sel \<ge> max_n then sel
      else sel @ [e])"

definition blocked :: "nat \<Rightarrow> string list \<Rightarrow> string \<Rightarrow> bool" where
  "blocked max_n sel e = (let checked = e \<in> set sel in \<not> checked \<and> length sel \<ge> max_n)"

text \<open>
  \<^verbatim>\<open>onPredict\<close>, in its two halves: the statements up to the \<^verbatim>\<open>await\<close>, with the
  calls they issue, and the \<^verbatim>\<open>try/catch/finally\<close> that runs once \<^verbatim>\<open>predict\<close> has
  settled.
  \<^verbatim>\<open>
  setError(""); setResult(null);
  if (selected.length < 3) { setError("Select at least 3 symptoms."); return; }
  setLoading(true);
  try { const data = await predict({ animal, symptoms: selected, top_k: 3 }); setResult(data); }
  catch { setError("Prediction failed. Check backend is running on port 8000."); }
  finally { setLoading(false); }
  \<close>
\<close>

definition min_msg :: string where
  "min_msg = ''Select at least 3 symptoms.''"

definition predict_failed_msg :: string where
  "predict_failed_msg = ''Prediction failed. Check backend is running on port 8000.''"

definition payload :: "app_state \<Rightarrow> json" where
  "payload s =
     JObj [(''animal'', JStr (animal s)),
           (''symptoms'', JArr (map JStr (selected s))),
           (''top_k'', JNum 3)]"

definition onPredict_begin :: "app_state \<Rightarrow> app_state \<times> http_call list" where
  "onPredict_begin s =
     (let s1 = s\<lparr>error := '''', result := JNull\<rparr>
      in if length (selected s) < 3 then (s1\<lparr>error := min_msg\<rparr>, [])
         else (s1\<lparr>loading := True\<rparr>, [predict_call (payload s)]))"

definition onPredict_settle :: "json settled \<Rightarrow> app_state \<Rightarrow> app_state \<times> http_call list" where
  "onPredict_settle r s =
     ((case r of
         Fulfilled d \<Rightarrow> s\<lparr>result := d\<rparr>
       | Rejected f \<Rightarrow> s\<lparr>error := predict_failed_msg\<rparr>)\<lparr>loading := False\<rparr>, [])"

text \<open>
  One whole run of \<^verbatim>\<open>onPredict\<close>, given how the call of \<^verbatim>\<open>api.post\<close> settles:
  the state it leaves and every call it has issued.
\<close>

definition onPredict :: "json response settled \<Rightarrow> app_state \<Rightarrow> app_state \<times> http_call list" where
  "onPredict awaited s =
     (let (s1, calls) = onPredict_begin s
      in if calls = [] then (s1, [])
         else (let (s2, more) = onPredict_settle (predict awaited) s1 in (s2, calls @ more)))"

section \<open>The application as a transition system\<close>

text \<open>
  The page with the calls that have not settled yet. The events are the ones
  the markup wires up and the settlements of the two kinds of call. The Predict
  button carries \<^verbatim>\<open>disabled={loading}\<close>: while \<open>loading\<close> holds a click does not
  reach \<^verbatim>\<open>onPredict\<close>, which has no check of its own.
\<close>

record system =
  ui :: app_state
  symptoms_pending :: bool
  predict_pending :: "http_call list"

datatype event =
    SymptomsSettled "symptoms_body option response settled"
  | SetAnimal string
  | SetQuery js_string
  | Toggle string
  | RemovePill string
  | ClearAll
  | ClickPredict
  | PredictSettled "json response settled"

definition init_system :: system where
  "init_system = \<lparr>ui = init_state, symptoms_pending = True, predict_pending = []\<rparr>"

fun step :: "event \<Rightarrow> system \<Rightarrow> system" where
  "step (SymptomsSettled r) sys =
     (if symptoms_pending sys
      then sys\<lparr>ui := load_settle (getSymptoms r) (ui sys), symptoms_pending := False\<rparr>
      else sys)"
| "step (SetAnimal a) sys = sys\<lparr>ui := (ui sys)\<lparr>animal := a\<rparr>\<rparr>"
| "step (SetQuery q) sys = sys\<lparr>ui := (ui sys)\<lparr>query := q\<rparr>\<rparr>"
| "step (Toggle e) sys = sys\<lparr>ui := toggle e (ui sys)\<rparr>"
| "step (RemovePill e) sys = sys\<lparr>ui := onRemove e (ui sys)\<rparr>"
| "step ClearAll sys = sys\<lparr>ui := clearAll (ui sys)\<rparr>"
| "step ClickPredict sys =
     (if loading (ui sys) then sys
      else (let (s1, calls) = onPredict_begin (ui sys)
            in sys\<lparr>ui := s1, predict_pending := predict_pending sys @ calls\<rparr>))"
| "step (PredictSettled r) sys =
     (case predict_pending sys of
        [] \<Rightarrow> sys
      | c # cs \<Rightarrow> sys\<lparr>ui := fst (onPredict_settle (predict r) (ui sys)), predict_pending := cs\<rparr>)"

definition run :: "event list \<Rightarrow> system" where
  "run evs = foldl (\<lambda>sys e. step e sys) init_system evs"

text \<open>
  What holds of the page between events: \<open>loading\<close> is set exactly while a
  prediction call has not settled, there is at most one such call, and nothing
  is shown as a result meanwhile.
\<close>

definition in_flight_inv :: "system \<Rightarrow> bool" where
  "in_flight_inv sys =
     ((loading (ui sys) \<longleftrightarrow> predict_pending sys \<noteq> [])
      \<and> length (predict_pending sys) \<le> 1
      \<and> (if loading (ui sys) then result (ui sys) = JNull else True))"

section \<open>Facts about the string functions\<close>

lemma includes_str_sublist: "includes_str s q = sublist q s"
  by (induction s) (simp_all add: sublist_Cons_right)

lemma toLowerCase_ascii_Nil_iff: "toLowerCase_ascii s = [] \<longleftrightarrow> s = []"
  by (simp add: toLowerCase_ascii_def)

lemma dropWhile_all_iff: "(\<forall>x\<in>set (dropWhile P xs). P x) \<longleftrightarrow> (\<forall>x\<in>set xs. P x)"
  by (induction xs) auto

text \<open>Trimming leaves nothing exactly when the string is white space throughout.\<close>

lemma trim_Nil_iff: "trim q = [] \<longleftrightarrow> list_all is_space q"
proof -
  have "trim q = [] \<longleftrightarrow> (\<forall>x\<in>set (rev (dropWhile is_space q)). is_space x)"
    by (simp add: trim_def dropWhile_eq_Nil_conv)
  also have "\<dots> \<longleftrightarrow> (\<forall>x\<in>set q. is_space x)"
    by (simp add: dropWhile_all_iff)
  finally show ?thesis
    by (simp add: list_all_iff)
qed

lemma blank_trim_iff: "list_all is_space (trim q) \<longleftrightarrow> list_all is_space q"
proof
  assume "list_all is_space q"
  then have "trim q = []" by (simp add: trim_Nil_iff)
  then show "list_all is_space (trim q)" by simp
next
  assume a: "list_all is_space (trim q)"
  show "list_all is_space q"
  proof (rule ccontr)
    assume n: "\<not> list_all is_space q"
    then have ne: "dropWhile is_space q \<noteq> []"
      by (simp add: dropWhile_eq_Nil_conv list_all_iff)
    then have h: "\<not> is_space (hd (dropWhile is_space q))"
      by (rule hd_dropWhile)
    have "hd (dropWhile is_space q) \<in> set (dropWhile is_space q)"
      using ne by simp
    then have "hd (dropWhile is_space q) \<in> set (rev (dropWhile is_space q))" by simp
    with h have ne2: "dropWhile is_space (rev (dropWhile is_space q)) \<noteq> []"
      by (auto simp: dropWhile_eq_Nil_conv)
    then have "\<not> is_space (hd (dropWhile is_space (rev (dropWhile is_space q))))"
      by (rule hd_dropWhile)
    moreover have "hd (dropWhile is_space (rev (dropWhile is_space q))) \<in> set (trim q)"
      using ne2 by (simp add: trim_def)
    ultimately show False using a by (auto simp: list_all_iff)
  qed
qed

section \<open>Facts about the selection\<close>

lemma toggle_keeps_bounds:
  "length (selected s) \<le> 8 \<and> distinct (selected s) \<Longrightarrow>
     length (selected (toggle e s)) \<le> 8 \<and> distinct (selected (toggle e s))"
  by (auto simp: toggle_def Let_def intro: le_trans [OF length_filter_le])

lemma toggles_keep_bounds:
  "length (selected s) \<le> 8 \<and> distinct (selected s) \<Longrightarrow>
     length (selected (foldl (\<lambda>s e. toggle e s) s es)) \<le> 8
     \<and> distinct (selected (foldl (\<lambda>s e. toggle e s) s es))"
proof (induction es arbitrary: s)
  case Nil
  then show ?case by simp
next
  case (Cons e es)
  from Cons.prems have "length (selected (toggle e s)) \<le> 8 \<and> distinct (selected (toggle e s))"
    by (rule toggle_keeps_bounds)
  then show ?case using Cons.IH [of "toggle e s"] by simp
qed

lemma selector_toggle_keeps_bounds:
  "length sel \<le> m \<and> distinct sel \<Longrightarrow>
     length (SymptomSelector_toggle d m sel e) \<le> m \<and> distinct (SymptomSelector_toggle d m sel e)"
  by (auto simp: SymptomSelector_toggle_def intro: le_trans [OF length_filter_le])

lemma selector_toggles_keep_bounds:
  "length sel \<le> m \<and> distinct sel \<Longrightarrow>
     length (foldl (SymptomSelector_toggle d m) sel es) \<le> m
     \<and> distinct (foldl (SymptomSelector_toggle d m) sel es)"
proof (induction es arbitrary: sel)
  case Nil
  then show ?case by simp
next
  case (Cons e es)
  from Cons.prems have "length (SymptomSelector_toggle d m sel e) \<le> m
      \<and> distinct (SymptomSelector_toggle d m sel e)"
    by (rule selector_toggle_keeps_bounds)
  then show ?case using Cons.IH [of "SymptomSelector_toggle d m sel e"] by simp
qed

section \<open>Facts about the transition system\<close>

lemma in_flight_inv_init: "in_flight_inv init_system"
  by (simp add: in_flight_inv_def init_system_def init_state_def)

lemma in_flight_inv_step: "in_flight_inv sys \<Longrightarrow> in_flight_inv (step e sys)"
proof (cases e)
  case (SymptomsSettled r)
  assume "in_flight_inv sys"
  then show ?thesis
    using SymptomsSettled
    by (auto simp: in_flight_inv_def load_settle_def split: settled.splits)
next
  case (Toggle x)
  assume "in_flight_inv sys"
  then show ?thesis
    using Toggle by (auto simp: in_flight_inv_def toggle_def Let_def)
next
  case ClickPredict
  assume "in_flight_inv sys"
  then show ?thesis
    using ClickPredict
    by (auto simp: in_flight_inv_def onPredict_begin_def Let_def)
next
  case (PredictSettled r)
  assume "in_flight_inv sys"
  then show ?thesis
    using PredictSettled
    by (cases "predict_pending sys")
       (auto simp: in_flight_inv_def onPredict_settle_def split: settled.splits)
qed (auto simp: in_flight_inv_def onRemove_def clearAll_def)

lemma in_flight_inv_run: "in_flight_inv (run evs)"
proof (induction evs rule: rev_induct)
  case Nil
  show ?case by (simp add: run_def in_flight_inv_init)
next
  case (snoc e evs)
  then show ?case by (simp add: run_def in_flight_inv_step)
qed

section \<open>The claims\<close>

subsection \<open>C1: one prediction request at a time\<close>

text \<open>
  C1. After any sequence of events, \<open>loading\<close> holds exactly when one
  prediction call is outstanding, there is never more than one, and while
  \<open>loading\<close> holds a click on Predict changes nothing: neither the state nor
  the calls outstanding. The guard is the button's \<^verbatim>\<open>disabled={loading}\<close>, the
  only way to \<^verbatim>\<open>onPredict\<close>.
\<close>

theorem single_flight_submit:
  "(loading (ui (run evs)) \<longleftrightarrow> length (predict_pending (run evs)) = 1)
   \<and> length (predict_pending (run evs)) \<le> 1
   \<and> (loading (ui (run evs)) \<longrightarrow> step ClickPredict (run evs) = run evs)"
proof -
  have "in_flight_inv (run evs)" by (rule in_flight_inv_run)
  then show ?thesis
    by (cases "predict_pending (run evs)") (auto simp: in_flight_inv_def)
qed

text \<open>
  Three symptoms chosen and Predict clicked: the page is loading, a second
  click is a no-op, and one call is outstanding.
\<close>

theorem single_flight_submit_witness:
  "loading (ui (run [Toggle ''fever'', Toggle ''cough'', Toggle ''limp'', ClickPredict]))
   \<and> step ClickPredict (run [Toggle ''fever'', Toggle ''cough'', Toggle ''limp'', ClickPredict])
       = run [Toggle ''fever'', Toggle ''cough'', Toggle ''limp'', ClickPredict]
   \<and> length (predict_pending
        (run [Toggle ''fever'', Toggle ''cough'', Toggle ''limp'', ClickPredict])) = 1"
proof -
  have l: "loading (ui (run [Toggle ''fever'', Toggle ''cough'', Toggle ''limp'', ClickPredict]))"
    by (simp add: run_def init_system_def init_state_def toggle_def onPredict_begin_def Let_def)
  from l single_flight_submit [of "[Toggle ''fever'', Toggle ''cough'', Toggle ''limp'', ClickPredict]"]
  show ?thesis by blast
qed

subsection \<open>C2: a selection below the minimum\<close>

text \<open>
  Against C2 as stated: with two symptoms selected, a result on display and an
  earlier notice in \<open>error\<close>, \<^verbatim>\<open>onPredict\<close> clears the result and replaces the
  notice; the status does not stay as it was.
\<close>

theorem submit_below_min_counterexample:
  "length (selected (init_state\<lparr>selected := [''fever'', ''cough''],
                               result := JObj [(''animal'', JStr ''Cow'')],
                               error := max_msg\<rparr>)) < 3
   \<and> result (fst (onPredict (Rejected NetworkError)
               (init_state\<lparr>selected := [''fever'', ''cough''],
                           result := JObj [(''animal'', JStr ''Cow'')],
                           error := max_msg\<rparr>)))
       \<noteq> result (init_state\<lparr>selected := [''fever'', ''cough''],
                              result := JObj [(''animal'', JStr ''Cow'')],
                              error := max_msg\<rparr>)
   \<and> error (fst (onPredict (Rejected NetworkError)
               (init_state\<lparr>selected := [''fever'', ''cough''],
                           result := JObj [(''animal'', JStr ''Cow'')],
                           error := max_msg\<rparr>)))
       \<noteq> error (init_state\<lparr>selected := [''fever'', ''cough''],
                             result := JObj [(''animal'', JStr ''Cow'')],
                             error := max_msg\<rparr>)"
  by (simp add: onPredict_def onPredict_begin_def init_state_def Let_def min_msg_def max_msg_def)

text \<open>
  C2, amended. With fewer than three symptoms selected, \<^verbatim>\<open>onPredict\<close> issues
  no call, however a call would have settled, and leaves the state as it was
  but for two fields: \<open>error\<close> is the message "Select at least 3 symptoms." and
  \<open>result\<close> is null. \<open>loading\<close>, the selection, the query, the animal and the
  catalog are untouched.
\<close>

theorem submit_below_min:
  "length (selected s) < 3 \<Longrightarrow>
     onPredict awaited s = (s\<lparr>result := JNull, error := ''Select at least 3 symptoms.''\<rparr>, [])"
  by (simp add: onPredict_def onPredict_begin_def Let_def min_msg_def)

theorem submit_below_min_witness:
  "length (selected (init_state\<lparr>selected := [''fever'', ''cough'']\<rparr>)) < 3
   \<and> onPredict (Fulfilled \<lparr>status = 200, data = JNull\<rparr>)
        (init_state\<lparr>selected := [''fever'', ''cough'']\<rparr>)
     = (init_state\<lparr>selected := [''fever'', ''cough''],
                   error := ''Select at least 3 symptoms.''\<rparr>, [])"
  using submit_below_min [of "init_state\<lparr>selected := [''fever'', ''cough'']\<rparr>"
      "Fulfilled \<lparr>status = 200, data = JNull\<rparr>"]
  by (simp add: init_state_def)

subsection \<open>C3: the search filter\<close>

text \<open>
  Against C3 as stated. The filter of App.jsx looks at \<open>display\<close> only: the
  query "weight_" occurs in the identifier of the symptom and not in its display
  label, and the symptom is left out. Both filters match the trimmed query: for
  the query " fever" the filter of SymptomSelector.jsx returns a symptom none of
  whose texts contains " fever".
\<close>

theorem filter_counterexample:
  "filteredSymptoms toLowerCase_ascii
       [\<lparr>en = js ''weight_loss'', te = js ''baruvu'', display = js ''Weight loss / baruvu''\<rparr>]
       (js ''weight_'')
     \<noteq> spec_filter toLowerCase_ascii
       [\<lparr>en = js ''weight_loss'', te = js ''baruvu'', display = js ''Weight loss / baruvu''\<rparr>]
       (js ''weight_'')
   \<and> filtered toLowerCase_ascii
       [\<lparr>en = js ''fever'', te = js ''jvaram'', display = js ''Fever / jvaram''\<rparr>] (js '' fever'')
     \<noteq> spec_filter toLowerCase_ascii
       [\<lparr>en = js ''fever'', te = js ''jvaram'', display = js ''Fever / jvaram''\<rparr>] (js '' fever'')"
  by (simp add: filteredSymptoms_def filtered_def spec_filter_def contains_ci_def Let_def
      toLowerCase_ascii_def js_def trim_def is_space_def sublist_code)

text \<open>
  C3, amended. Let \<open>t\<close> be the query with the white space at its ends removed,
  white space being what \<^verbatim>\<open>trim\<close> removes. The filter of SymptomSelector.jsx
  returns exactly the symptoms of the list, in catalog order, whose identifier
  or a label (\<open>en\<close>, \<open>te\<close>, \<open>display\<close>) contains \<open>t\<close> as a case-insensitive
  substring; the filter of App.jsx returns exactly those whose \<open>display\<close> label
  does. Both results are subsequences of the list, and for an empty or
  white-space query both are the list itself. The premise is a fact of
  \<^verbatim>\<open>toLowerCase\<close>: it gives the empty string for the empty string only.
\<close>

theorem filter_matches_trimmed_query:
  "(toLowerCase (trim q) = []) = (trim q = []) \<Longrightarrow>
     filtered toLowerCase L q = spec_filter toLowerCase L (trim q)
     \<and> filteredSymptoms toLowerCase L q =
         (if list_all is_space q then L
          else filter (\<lambda>s. contains_ci toLowerCase (display s) (trim q)) L)
     \<and> subseq (filtered toLowerCase L q) L \<and> subseq (filteredSymptoms toLowerCase L q) L
     \<and> (list_all is_space q \<longrightarrow>
          filtered toLowerCase L q = L \<and> filteredSymptoms toLowerCase L q = L)"
proof -
  assume lower: "(toLowerCase (trim q) = []) = (trim q = [])"
  have e: "(toLowerCase (trim q) = []) = list_all is_space q"
    by (simp add: lower trim_Nil_iff)
  have a: "filtered toLowerCase L q = spec_filter toLowerCase L (trim q)"
    unfolding filtered_def spec_filter_def Let_def contains_ci_def includes_str_sublist
      e blank_trim_iff
    by (auto intro: filter_cong)
  have b: "filteredSymptoms toLowerCase L q =
       (if list_all is_space q then L
        else filter (\<lambda>s. contains_ci toLowerCase (display s) (trim q)) L)"
    unfolding filteredSymptoms_def Let_def contains_ci_def includes_str_sublist e
    by simp
  have c: "subseq (filtered toLowerCase L q) L"
    by (simp add: filtered_def Let_def)
  have d: "subseq (filteredSymptoms toLowerCase L q) L"
    by (simp add: filteredSymptoms_def Let_def)
  have f: "list_all is_space q \<longrightarrow>
      filtered toLowerCase L q = L \<and> filteredSymptoms toLowerCase L q = L"
    using e by (simp add: filtered_def filteredSymptoms_def Let_def)
  from a b c d f show ?thesis by blast
qed

text \<open>
  A catalog of two symptoms. A query of a space, a tab and a no-break space
  returns it as it is. The query "FeVer" with a no-break space and a space
  before it and an em space and a tab after it returns the first symptom, from
  both filters.
\<close>

theorem filter_matches_trimmed_query_witness:
  "list_all is_space [0x20, 0x09, 0xA0]
   \<and> filtered toLowerCase_ascii
        [\<lparr>en = js ''fever'', te = js ''jvaram'', display = js ''Fever / jvaram''\<rparr>,
         \<lparr>en = js ''cough'', te = js ''daggu'', display = js ''Cough / daggu''\<rparr>] [0x20, 0x09, 0xA0]
       = [\<lparr>en = js ''fever'', te = js ''jvaram'', display = js ''Fever / jvaram''\<rparr>,
          \<lparr>en = js ''cough'', te = js ''daggu'', display = js ''Cough / daggu''\<rparr>]
   \<and> filteredSymptoms toLowerCase_ascii
        [\<lparr>en = js ''fever'', te = js ''jvaram'', display = js ''Fever / jvaram''\<rparr>,
         \<lparr>en = js ''cough'', te = js ''daggu'', display = js ''Cough / daggu''\<rparr>] [0x20, 0x09, 0xA0]
       = [\<lparr>en = js ''fever'', te = js ''jvaram'', display = js ''Fever / jvaram''\<rparr>,
          \<lparr>en = js ''cough'', te = js ''daggu'', display = js ''Cough / daggu''\<rparr>]
   \<and> trim (0xA0 # js '' FeVer'' @ [0x2003, 0x09]) = js ''FeVer''
   \<and> filtered toLowerCase_ascii
        [\<lparr>en = js ''fever'', te = js ''jvaram'', display = js ''Fever / jvaram''\<rparr>,
         \<lparr>en = js ''cough'', te = js ''daggu'', display = js ''Cough / daggu''\<rparr>]
        (0xA0 # js '' FeVer'' @ [0x2003, 0x09])
       = [\<lparr>en = js ''fever'', te = js ''jvaram'', display = js ''Fever / jvaram''\<rparr>]
   \<and> filteredSymptoms toLowerCase_ascii
        [\<lparr>en = js ''fever'', te = js ''jvaram'', display = js ''Fever / jvaram''\<rparr>,
         \<lparr>en = js ''cough'', te = js ''daggu'', display = js ''Cough / daggu''\<rparr>]
        (0xA0 # js '' FeVer'' @ [0x2003, 0x09])
       = [\<lparr>en = js ''fever'', te = js ''jvaram'', display = js ''Fever / jvaram''\<rparr>]"
proof -
  have blank: "list_all is_space [0x20, 0x09, 0xA0]"
    by (simp add: is_space_def)
  have t: "trim (0xA0 # js '' FeVer'' @ [0x2003, 0x09]) = js ''FeVer''"
    by (simp add: js_def trim_def is_space_def)
  have nb: "\<not> list_all is_space (0xA0 # js '' FeVer'' @ [0x2003, 0x09])"
    by (simp add: js_def is_space_def)
  have low: "(toLowerCase_ascii (trim u) = []) = (trim u = [])" for u
    by (rule toLowerCase_ascii_Nil_iff)
  note w1 = filter_matches_trimmed_query [of toLowerCase_ascii "[0x20, 0x09, 0xA0]"
      "[\<lparr>en = js ''fever'', te = js ''jvaram'', display = js ''Fever / jvaram''\<rparr>,
           \<lparr>en = js ''cough'', te = js ''daggu'', display = js ''Cough / daggu''\<rparr>]", OF low]
  note w2 = filter_matches_trimmed_query [of toLowerCase_ascii "0xA0 # js '' FeVer'' @ [0x2003, 0x09]"
      "[\<lparr>en = js ''fever'', te = js ''jvaram'', display = js ''Fever / jvaram''\<rparr>,
           \<lparr>en = js ''cough'', te = js ''daggu'', display = js ''Cough / daggu''\<rparr>]", OF low]
  have s: "spec_filter toLowerCase_ascii
        [\<lparr>en = js ''fever'', te = js ''jvaram'', display = js ''Fever / jvaram''\<rparr>,
         \<lparr>en = js ''cough'', te = js ''daggu'', display = js ''Cough / daggu''\<rparr>] (js ''FeVer'')
       = [\<lparr>en = js ''fever'', te = js ''jvaram'', display = js ''Fever / jvaram''\<rparr>]"
    by (simp add: spec_filter_def contains_ci_def toLowerCase_ascii_def js_def is_space_def
        sublist_code)
  have d: "filter (\<lambda>s. contains_ci toLowerCase_ascii (display s) (js ''FeVer''))
        [\<lparr>en = js ''fever'', te = js ''jvaram'', display = js ''Fever / jvaram''\<rparr>,
         \<lparr>en = js ''cough'', te = js ''daggu'', display = js ''Cough / daggu''\<rparr>]
       = [\<lparr>en = js ''fever'', te = js ''jvaram'', display = js ''Fever / jvaram''\<rparr>]"
    by (simp add: contains_ci_def toLowerCase_ascii_def js_def sublist_code)
  from w1 blank have p1: "filtered toLowerCase_ascii
        [\<lparr>en = js ''fever'', te = js ''jvaram'', display = js ''Fever / jvaram''\<rparr>,
         \<lparr>en = js ''cough'', te = js ''daggu'', display = js ''Cough / daggu''\<rparr>] [0x20, 0x09, 0xA0]
       = [\<lparr>en = js ''fever'', te = js ''jvaram'', display = js ''Fever / jvaram''\<rparr>,
          \<lparr>en = js ''cough'', te = js ''daggu'', display = js ''Cough / daggu''\<rparr>]
     \<and> filteredSymptoms toLowerCase_ascii
        [\<lparr>en = js ''fever'', te = js ''jvaram'', display = js ''Fever / jvaram''\<rparr>,
         \<lparr>en = js ''cough'', te = js ''daggu'', display = js ''Cough / daggu''\<rparr>] [0x20, 0x09, 0xA0]
       = [\<lparr>en = js ''fever'', te = js ''jvaram'', display = js ''Fever / jvaram''\<rparr>,
          \<lparr>en = js ''cough'', te = js ''daggu'', display = js ''Cough / daggu''\<rparr>]"
    by blast
  from w2 have p2: "filtered toLowerCase_ascii
        [\<lparr>en = js ''fever'', te = js ''jvaram'', display = js ''Fever / jvaram''\<rparr>,
         \<lparr>en = js ''cough'', te = js ''daggu'', display = js ''Cough / daggu''\<rparr>]
        (0xA0 # js '' FeVer'' @ [0x2003, 0x09])
       = [\<lparr>en = js ''fever'', te = js ''jvaram'', display = js ''Fever / jvaram''\<rparr>]"
    by (simp only: t s)
  from w2 nb have p3: "filteredSymptoms toLowerCase_ascii
        [\<lparr>en = js ''fever'', te = js ''jvaram'', display = js ''Fever / jvaram''\<rparr>,
         \<lparr>en = js ''cough'', te = js ''daggu'', display = js ''Cough / daggu''\<rparr>]
        (0xA0 # js '' FeVer'' @ [0x2003, 0x09])
       = [\<lparr>en = js ''fever'', te = js ''jvaram'', display = js ''Fever / jvaram''\<rparr>]"
    by (simp only: t d if_False)
  from blank p1 t p2 p3 show ?thesis by blast
qed

subsection \<open>C4: the bounds of the selection\<close>

text \<open>
  C4. Starting from the empty selection, after any sequence of \<^verbatim>\<open>toggle\<close> calls
  the selection has at most 8 identifiers and none twice; this holds of the
  \<^verbatim>\<open>toggle\<close> of App.jsx and of the one of SymptomSelector.jsx with its
  default maximum, enabled or disabled.
\<close>

theorem toggle_sequence_bounds:
  "selected s = [] \<Longrightarrow>
     0 \<le> length (selected (foldl (\<lambda>s e. toggle e s) s es))
     \<and> length (selected (foldl (\<lambda>s e. toggle e s) s es)) \<le> 8
     \<and> distinct (selected (foldl (\<lambda>s e. toggle e s) s es))
     \<and> length (foldl (SymptomSelector_toggle d 8) [] es) \<le> 8
     \<and> distinct (foldl (SymptomSelector_toggle d 8) [] es)"
  using toggles_keep_bounds [of s es] selector_toggles_keep_bounds [of "[]" 8 d es] by simp

text \<open>Ten toggles of nine identifiers, one of them twice.\<close>

theorem toggle_sequence_bounds_witness:
  "selected init_state = []
   \<and> length (selected (foldl (\<lambda>s e. toggle e s) init_state
        [''a'', ''b'', ''c'', ''d'', ''a'', ''e'', ''f'', ''g'', ''h'', ''i''])) \<le> 8
   \<and> distinct (selected (foldl (\<lambda>s e. toggle e s) init_state
        [''a'', ''b'', ''c'', ''d'', ''a'', ''e'', ''f'', ''g'', ''h'', ''i'']))
   \<and> length (foldl (SymptomSelector_toggle False 8) []
        [''a'', ''b'', ''c'', ''d'', ''a'', ''e'', ''f'', ''g'', ''h'', ''i'']) \<le> 8"
  using toggle_sequence_bounds [of init_state
      "[''a'', ''b'', ''c'', ''d'', ''a'', ''e'', ''f'', ''g'', ''h'', ''i'']" False]
  by (simp add: init_state_def)

subsection \<open>C5: a toggle at the maximum\<close>

text \<open>
  C5. With 8 identifiers selected and \<open>e\<close> not among them, \<^verbatim>\<open>toggle\<close> of
  App.jsx leaves the selection and every other field as they are but for
  \<open>error\<close>, which becomes the notice "You can select maximum 8 symptoms.".
  The \<^verbatim>\<open>toggle\<close> of SymptomSelector.jsx leaves the selection as it is too, and
  the item is drawn blocked, with the caption (max 8).
\<close>

theorem toggle_at_max_rejected:
  "length (selected s) = 8 \<Longrightarrow> e \<notin> set (selected s) \<Longrightarrow>
     toggle e s = s\<lparr>error := ''You can select maximum 8 symptoms.''\<rparr>
     \<and> selected (toggle e s) = selected s
     \<and> SymptomSelector_toggle d 8 (selected s) e = selected s
     \<and> blocked 8 (selected s) e"
  by (simp add: toggle_def Let_def max_msg_def SymptomSelector_toggle_def blocked_def)

theorem toggle_at_max_rejected_witness:
  "length (selected (init_state\<lparr>selected := [''a'', ''b'', ''c'', ''d'', ''e'', ''f'', ''g'', ''h'']\<rparr>)) = 8
   \<and> ''i'' \<notin> set (selected (init_state\<lparr>selected := [''a'', ''b'', ''c'', ''d'', ''e'', ''f'', ''g'', ''h'']\<rparr>))
   \<and> toggle ''i'' (init_state\<lparr>selected := [''a'', ''b'', ''c'', ''d'', ''e'', ''f'', ''g'', ''h'']\<rparr>)
       = init_state\<lparr>selected := [''a'', ''b'', ''c'', ''d'', ''e'', ''f'', ''g'', ''h''],
                    error := ''You can select maximum 8 symptoms.''\<rparr>"
  using toggle_at_max_rejected
    [of "init_state\<lparr>selected := [''a'', ''b'', ''c'', ''d'', ''e'', ''f'', ''g'', ''h'']\<rparr>" "''i''"]
  by (simp add: init_state_def)

subsection \<open>C6: a prediction call that fails\<close>

text \<open>
  Against C6 as stated, for a malformed payload. The call is fulfilled with
  status 200 and the empty object as its body, which has none of the fields of
  a prediction. \<^verbatim>\<open>predict\<close> returns the body as it is and \<^verbatim>\<open>onPredict\<close> stores
  it as the result; \<open>error\<close> stays empty.
\<close>

theorem predict_failure_counterexample:
  "field ''animal'' (JObj []) = None \<and> field ''predictions'' (JObj []) = None
   \<and> field ''risk'' (JObj []) = None
   \<and> error (fst (onPredict (Fulfilled \<lparr>status = 200, data = JObj []\<rparr>)
                  (init_state\<lparr>selected := [''fever'', ''cough'', ''limp'']\<rparr>))) = ''''
   \<and> result (fst (onPredict (Fulfilled \<lparr>status = 200, data = JObj []\<rparr>)
                  (init_state\<lparr>selected := [''fever'', ''cough'', ''limp'']\<rparr>))) = JObj []"
  by (simp add: onPredict_def onPredict_begin_def onPredict_settle_def predict_def
      init_state_def Let_def)

text \<open>
  C6, amended. When the prediction call is rejected (no response, timeout, or
  a status outside 200..299), a submission with at least three symptoms ends
  with \<open>error\<close> set to "Prediction failed. Check backend is running on port
  8000.", which is neither of the two validation messages, with \<open>result\<close>
  null and with \<open>loading\<close> false; the same holds of the page whatever events
  came between the click and the rejection. A fulfilled call has its body
  stored as the result, whatever the body is.
\<close>

theorem predict_rejected_sets_error:
  "(3 \<le> length (selected s) \<longrightarrow>
      fst (onPredict (Rejected f) s)
        = s\<lparr>error := ''Prediction failed. Check backend is running on port 8000.'',
            result := JNull, loading := False\<rparr>
      \<and> fst (onPredict (Fulfilled r) s) = s\<lparr>error := '''', result := data r, loading := False\<rparr>)
   \<and> (loading (ui (run evs)) \<longrightarrow>
      ui (step (PredictSettled (Rejected f)) (run evs))
        = (ui (run evs))\<lparr>error := predict_failed_msg, result := JNull, loading := False\<rparr>)
   \<and> predict_failed_msg \<noteq> min_msg \<and> predict_failed_msg \<noteq> max_msg"
proof -
  have handler: "3 \<le> length (selected s) \<longrightarrow>
      fst (onPredict (Rejected f) s)
        = s\<lparr>error := ''Prediction failed. Check backend is running on port 8000.'',
            result := JNull, loading := False\<rparr>
      \<and> fst (onPredict (Fulfilled r) s) = s\<lparr>error := '''', result := data r, loading := False\<rparr>"
    by (simp add: onPredict_def onPredict_begin_def onPredict_settle_def predict_def Let_def
        predict_failed_msg_def)
  have page: "ui (step (PredictSettled (Rejected f)) (run evs))
        = (ui (run evs))\<lparr>error := predict_failed_msg, result := JNull, loading := False\<rparr>"
    if l: "loading (ui (run evs))"
  proof -
    have "in_flight_inv (run evs)" by (rule in_flight_inv_run)
    with l show ?thesis
      by (cases "predict_pending (run evs)")
         (auto simp: in_flight_inv_def onPredict_settle_def predict_def)
  qed
  have msgs: "predict_failed_msg \<noteq> min_msg \<and> predict_failed_msg \<noteq> max_msg"
    by (simp add: predict_failed_msg_def min_msg_def max_msg_def)
  from handler page msgs show ?thesis by blast
qed

text \<open>
  A result on display, three symptoms, and the service answers 500; and the
  same on the page, with the selection changed while the call was out.
\<close>

theorem predict_rejected_sets_error_witness:
  "3 \<le> length (selected (init_state\<lparr>selected := [''fever'', ''cough'', ''limp''],
                                     result := JObj [(''animal'', JStr ''Cow'')]\<rparr>))
   \<and> fst (onPredict (Rejected (BadStatus 500))
            (init_state\<lparr>selected := [''fever'', ''cough'', ''limp''],
                        result := JObj [(''animal'', JStr ''Cow'')]\<rparr>))
       = init_state\<lparr>selected := [''fever'', ''cough'', ''limp''],
                    error := ''Prediction failed. Check backend is running on port 8000.''\<rparr>
   \<and> loading (ui (run [Toggle ''fever'', Toggle ''cough'', Toggle ''limp'', ClickPredict,
                        Toggle ''fever'']))
   \<and> error (ui (step (PredictSettled (Rejected (BadStatus 500)))
               (run [Toggle ''fever'', Toggle ''cough'', Toggle ''limp'', ClickPredict,
                     Toggle ''fever''])))
       = ''Prediction failed. Check backend is running on port 8000.''"
proof -
  have h: "3 \<le> length (selected (init_state\<lparr>selected := [''fever'', ''cough'', ''limp''],
                                     result := JObj [(''animal'', JStr ''Cow'')]\<rparr>))"
    by simp
  have l: "loading (ui (run [Toggle ''fever'', Toggle ''cough'', Toggle ''limp'', ClickPredict,
                        Toggle ''fever'']))"
    by (simp add: run_def init_system_def init_state_def toggle_def onPredict_begin_def Let_def)
  from h l predict_rejected_sets_error
    [of "init_state\<lparr>selected := [''fever'', ''cough'', ''limp''],
                    result := JObj [(''animal'', JStr ''Cow'')]\<rparr>"
        "BadStatus 500" _
        "[Toggle ''fever'', Toggle ''cough'', Toggle ''limp'', ClickPredict, Toggle ''fever'']"]
  show ?thesis by (simp add: init_state_def predict_failed_msg_def)
qed

subsection \<open>C7: the request of a valid submission\<close>

text \<open>
  C7. With at least three symptoms selected, one run of \<^verbatim>\<open>onPredict\<close> issues
  exactly one call, a POST to /predict whose body has the animal chosen, the
  identifiers selected and \<open>top_k\<close> 3, however the call settles: a rejection
  is followed by no second call.
\<close>

theorem valid_submit_one_request:
  "3 \<le> length (selected s) \<Longrightarrow>
     snd (onPredict awaited s) =
       [POST ''/predict'' (JObj [(''animal'', JStr (animal s)),
                                 (''symptoms'', JArr (map JStr (selected s))),
                                 (''top_k'', JNum 3)])]"
  by (simp add: onPredict_def onPredict_begin_def onPredict_settle_def Let_def
      predict_call_def payload_def split: prod.splits)

theorem valid_submit_one_request_witness:
  "3 \<le> length (selected (init_state\<lparr>selected := [''fever'', ''cough'', ''limp'']\<rparr>))
   \<and> snd (onPredict (Rejected Timeout) (init_state\<lparr>selected := [''fever'', ''cough'', ''limp'']\<rparr>))
       = [POST ''/predict'' (JObj [(''animal'', JStr ''Cow''),
                                   (''symptoms'', JArr [JStr ''fever'', JStr ''cough'', JStr ''limp'']),
                                   (''top_k'', JNum 3)])]"
  using valid_submit_one_request
    [of "init_state\<lparr>selected := [''fever'', ''cough'', ''limp'']\<rparr>" "Rejected Timeout"]
  by (simp add: init_state_def)

subsection \<open>C8: an empty catalog\<close>

text \<open>
  C8. For every response to the call of /symptoms whose body is null, has no
  \<open>symptoms\<close>, or has the empty list there, \<^verbatim>\<open>getSymptoms\<close> is fulfilled with
  the empty list, and the effect of \<^verbatim>\<open>App\<close> stores it as the catalog without
  setting an error.
\<close>

theorem empty_catalog_loads:
  "data r = None \<or> data r = Some \<lparr>symptoms = None\<rparr> \<or> data r = Some \<lparr>symptoms = Some []\<rparr> \<Longrightarrow>
     getSymptoms (Fulfilled r) = Fulfilled []
     \<and> load_settle (getSymptoms (Fulfilled r)) s = s\<lparr>allSymptoms := []\<rparr>"
  by (auto simp: getSymptoms_def load_settle_def)

theorem empty_catalog_loads_witness:
  "data \<lparr>status = 200, data = Some \<lparr>symptoms = None\<rparr>\<rparr> = Some \<lparr>symptoms = None\<rparr>
   \<and> getSymptoms (Fulfilled \<lparr>status = 200, data = Some \<lparr>symptoms = None\<rparr>\<rparr>) = Fulfilled []
   \<and> allSymptoms (load_settle
         (getSymptoms (Fulfilled \<lparr>status = 200, data = Some \<lparr>symptoms = None\<rparr>\<rparr>)) init_state) = []
   \<and> error (load_settle
         (getSymptoms (Fulfilled \<lparr>status = 200, data = Some \<lparr>symptoms = None\<rparr>\<rparr>)) init_state) = []"
proof -
  have d: "data \<lparr>status = 200, data = Some \<lparr>symptoms = None\<rparr>\<rparr> = None
      \<or> data \<lparr>status = 200, data = Some \<lparr>symptoms = None\<rparr>\<rparr> = Some \<lparr>symptoms = None\<rparr>
      \<or> data \<lparr>status = 200, data = Some \<lparr>symptoms = None\<rparr>\<rparr> = Some \<lparr>symptoms = Some []\<rparr>"
    by simp
  note w = empty_catalog_loads [OF d, of init_state]
  from w have a: "getSymptoms (Fulfilled \<lparr>status = 200, data = Some \<lparr>symptoms = None\<rparr>\<rparr>) = Fulfilled []"
    by (rule conjunct1)
  from w have b: "load_settle
      (getSymptoms (Fulfilled \<lparr>status = 200, data = Some \<lparr>symptoms = None\<rparr>\<rparr>)) init_state
        = init_state\<lparr>allSymptoms := []\<rparr>"
    by (rule conjunct2)
  have c: "error (init_state\<lparr>allSymptoms := []\<rparr>) = []"
    by (simp add: init_state_def)
  from a b c show ?thesis by simp
qed

subsection \<open>C9: removing and adding again\<close>

text \<open>
  C9. For a selection of at most 8 identifiers that contains \<open>e\<close>, two calls of
  \<^verbatim>\<open>toggle\<close> with \<open>e\<close> give a selection with the same members: the first
  removes \<open>e\<close>, the second puts it at the end.
\<close>

theorem toggle_twice_same_members:
  "length (selected s) \<le> 8 \<Longrightarrow> e \<in> set (selected s) \<Longrightarrow>
     set (selected (toggle e (toggle e s))) = set (selected s)
     \<and> toggle e (toggle e s) = s\<lparr>selected := filter (\<lambda>x. x \<noteq> e) (selected s) @ [e]\<rparr>"
proof -
  assume len: "length (selected s) \<le> 8" and mem: "e \<in> set (selected s)"
  from mem have "length (filter (\<lambda>x. x \<noteq> e) (selected s)) < length (selected s)"
    by (simp add: length_filter_less)
  with len have short: "\<not> 8 \<le> length (filter (\<lambda>x. x \<noteq> e) (selected s))"
    by simp
  from mem short
  have eq: "toggle e (toggle e s) = s\<lparr>selected := filter (\<lambda>x. x \<noteq> e) (selected s) @ [e]\<rparr>"
    by (simp add: toggle_def Let_def)
  from mem have "set (filter (\<lambda>x. x \<noteq> e) (selected s) @ [e]) = set (selected s)"
    by auto
  with eq show ?thesis by simp
qed

text \<open>A full selection: the first toggle makes the room the second needs.\<close>

theorem toggle_twice_same_members_witness:
  "length (selected (init_state\<lparr>selected := [''a'', ''b'', ''c'', ''d'', ''e'', ''f'', ''g'', ''h'']\<rparr>)) \<le> 8
   \<and> ''b'' \<in> set (selected (init_state\<lparr>selected := [''a'', ''b'', ''c'', ''d'', ''e'', ''f'', ''g'', ''h'']\<rparr>))
   \<and> toggle ''b'' (toggle ''b''
        (init_state\<lparr>selected := [''a'', ''b'', ''c'', ''d'', ''e'', ''f'', ''g'', ''h'']\<rparr>))
       = init_state\<lparr>selected := [''a'', ''c'', ''d'', ''e'', ''f'', ''g'', ''h'', ''b'']\<rparr>"
  using toggle_twice_same_members
    [of "init_state\<lparr>selected := [''a'', ''b'', ''c'', ''d'', ''e'', ''f'', ''g'', ''h'']\<rparr>" "''b''"]
  by (simp add: init_state_def)

subsection \<open>C10: the class of a risk label\<close>

text \<open>
  C10. \<^verbatim>\<open>RiskBadge\<close> gives a label the high class if the label, lower-cased,
  contains "high risk", else the medium class if it contains "medium risk",
  else the low class. \<^verbatim>\<open>riskColor\<close> tests "high", "medium" and "low" in that
  order on the lower-cased text and falls back to "default"; an absent text is
  treated as the empty one. As \<^verbatim>\<open>toLowerCase\<close> leaves the empty string empty,
  the empty label gets the low class and an absent or empty text "default".
\<close>

theorem risk_label_classes:
  "RiskBadge toLowerCase label =
     (if sublist (js ''high risk'') (toLowerCase label) then ''badge badge-high''
      else if sublist (js ''medium risk'') (toLowerCase label) then ''badge badge-med''
      else ''badge badge-low'')
   \<and> riskColor toLowerCase (Some label) =
     (if sublist (js ''high'') (toLowerCase label) then ''error''
      else if sublist (js ''medium'') (toLowerCase label) then ''warning''
      else if sublist (js ''low'') (toLowerCase label) then ''success''
      else ''default'')
   \<and> riskColor toLowerCase None = riskColor toLowerCase (Some [])
   \<and> (toLowerCase [] = [] \<longrightarrow>
        RiskBadge toLowerCase [] = ''badge badge-low''
        \<and> riskColor toLowerCase None = ''default''
        \<and> riskColor toLowerCase (Some []) = ''default'')"
  by (simp add: RiskBadge_def riskColor_def Let_def includes_str_sublist js_def)

text \<open>
  A label in mixed case with a Telugu part after it (the three code units of
  its first syllables), and the empty label.
\<close>

theorem risk_label_classes_witness:
  "toLowerCase_ascii [] = []
   \<and> RiskBadge toLowerCase_ascii (js ''Medium Risk / '' @ [0x0C2E, 0x0C27, 0x0C4D])
       = ''badge badge-med''
   \<and> riskColor toLowerCase_ascii (Some (js ''Medium Risk / '' @ [0x0C2E, 0x0C27, 0x0C4D]))
       = ''warning''
   \<and> RiskBadge toLowerCase_ascii [] = ''badge badge-low''
   \<and> riskColor toLowerCase_ascii None = ''default''"
proof -
  have e: "toLowerCase_ascii [] = []"
    by (simp add: toLowerCase_ascii_def)
  note w = risk_label_classes [of toLowerCase_ascii "js ''Medium Risk / '' @ [0x0C2E, 0x0C27, 0x0C4D]"]
  have hr: "\<not> sublist (js ''high risk'')
      (toLowerCase_ascii (js ''Medium Risk / '' @ [0x0C2E, 0x0C27, 0x0C4D]))"
    by (simp add: toLowerCase_ascii_def js_def sublist_code)
  have mr: "sublist (js ''medium risk'')
      (toLowerCase_ascii (js ''Medium Risk / '' @ [0x0C2E, 0x0C27, 0x0C4D]))"
    by (simp add: toLowerCase_ascii_def js_def sublist_code)
  have h: "\<not> sublist (js ''high'')
      (toLowerCase_ascii (js ''Medium Risk / '' @ [0x0C2E, 0x0C27, 0x0C4D]))"
    by (simp add: toLowerCase_ascii_def js_def sublist_code)
  have m: "sublist (js ''medium'')
      (toLowerCase_ascii (js ''Medium Risk / '' @ [0x0C2E, 0x0C27, 0x0C4D]))"
    by (simp add: toLowerCase_ascii_def js_def sublist_code)
  from w have a: "RiskBadge toLowerCase_ascii (js ''Medium Risk / '' @ [0x0C2E, 0x0C27, 0x0C4D])
       = ''badge badge-med''"
    by (simp only: hr mr if_True if_False)
  from w have b: "riskColor toLowerCase_ascii
        (Some (js ''Medium Risk / '' @ [0x0C2E, 0x0C27, 0x0C4D])) = ''warning''"
    by (simp only: h m if_True if_False)
  from w e have c: "RiskBadge toLowerCase_ascii [] = ''badge badge-low''
      \<and> riskColor toLowerCase_ascii None = ''default''"
    by blast
  from e a b c show ?thesis by blast
qed

end
